theory Spec2Isabelle
  imports Main
begin

section \<open>A shallow embedding of req.cpp, the C++20 port of the requests API\<close>

text \<open>
  The development follows \<^verbatim>\<open>src/python-requests/req.cpp\<close> class by class. A
  \<^verbatim>\<open>std::string\<close> is a \<^typ>\<open>string\<close> (a list of 8-bit characters), a
  \<^verbatim>\<open>std::optional\<close> is an \<^typ>\<open>'a option\<close>, a \<^verbatim>\<open>std::vector\<close> is a list, a
  \<^verbatim>\<open>std::map\<close> with string keys is the list of its entries in iteration order
  (ascending keys), and a member function that mutates its object takes the object and
  returns the new one. A coroutine is the frame its call makes, with the points at
  which it suspends (see the section on \<^verbatim>\<open>task\<close>).
\<close>

subsection \<open>Characters and strings\<close>

text \<open>
  \<^verbatim>\<open>std::tolower\<close> and \<^verbatim>\<open>std::toupper\<close> on an \<^verbatim>\<open>unsigned char\<close>, in the "C" locale
  the program runs in (it never calls \<^verbatim>\<open>setlocale\<close>): only the 26 ASCII letters move.
\<close>

definition isupper :: "char \<Rightarrow> bool" where
  "isupper c = (65 \<le> (of_char c :: nat) \<and> (of_char c :: nat) \<le> 90)"

definition islower :: "char \<Rightarrow> bool" where
  "islower c = (97 \<le> (of_char c :: nat) \<and> (of_char c :: nat) \<le> 122)"

definition tolower :: "char \<Rightarrow> char" where
  "tolower c = (if isupper c then char_of ((of_char c :: nat) + 32) else c)"

definition toupper :: "char \<Rightarrow> char" where
  "toupper c = (if islower c then char_of ((of_char c :: nat) - 32) else c)"

text \<open>\<^verbatim>\<open>case_insensitive_dict::to_lower\<close>: every character through \<^verbatim>\<open>std::tolower\<close>.\<close>

definition to_lower :: "string \<Rightarrow> string" where
  "to_lower s = map tolower s"

text \<open>
  \<^verbatim>\<open>std::string::find\<close> with a string argument: the first position at which the needle
  occurs, \<open>None\<close> for \<^verbatim>\<open>npos\<close>. The accumulator is the position of the head of the
  haystack.
\<close>

fun starts_with :: "string \<Rightarrow> string \<Rightarrow> bool" where
  "starts_with s [] = True"
| "starts_with [] (p # ps) = False"
| "starts_with (c # cs) (p # ps) = (c = p \<and> starts_with cs ps)"

fun find_from :: "nat \<Rightarrow> string \<Rightarrow> string \<Rightarrow> nat option" where
  "find_from i needle [] = (if needle = [] then Some i else None)"
| "find_from i needle (c # cs) =
     (if starts_with (c # cs) needle then Some i else find_from (Suc i) needle cs)"

definition find_str :: "string \<Rightarrow> string \<Rightarrow> nat option" where
  "find_str s needle = find_from 0 needle s"

text \<open>\<^verbatim>\<open>std::to_string(int)\<close>: the decimal digits, with a minus sign below zero.\<close>

fun digits :: "nat \<Rightarrow> string" where
  "digits n =
     (if n < 10 then [char_of (48 + n)]
      else digits (n div 10) @ [char_of (48 + n mod 10)])"

declare digits.simps [simp del]

definition to_string :: "int \<Rightarrow> string" where
  "to_string i = (if i < 0 then CHR ''-'' # digits (nat (- i)) else digits (nat i))"

text \<open>
  The order of \<^verbatim>\<open>std::string\<close> (\<^verbatim>\<open>operator<\<close>): lexicographic on the character
  codes, a proper prefix first. It is the key order of every \<^verbatim>\<open>std::map\<close> below.
\<close>

fun str_less :: "string \<Rightarrow> string \<Rightarrow> bool" where
  "str_less [] [] = False"
| "str_less [] (y # ys) = True"
| "str_less (x # xs) [] = False"
| "str_less (x # xs) (y # ys) =
     (if (of_char x :: nat) < of_char y then True
      else if (of_char y :: nat) < of_char x then False
      else str_less xs ys)"

subsection \<open>std::map with string keys\<close>

type_synonym 'v std_map = "(string \<times> 'v) list"

text \<open>\<^verbatim>\<open>m[k] = v\<close>: overwrite the entry of \<open>k\<close>, or insert it at its place in key order.\<close>

fun map_assign :: "string \<Rightarrow> 'v \<Rightarrow> 'v std_map \<Rightarrow> 'v std_map" where
  "map_assign k v [] = [(k, v)]"
| "map_assign k v ((k', v') # m) =
     (if k = k' then (k, v) # m
      else if str_less k k' then (k, v) # (k', v') # m
      else (k', v') # map_assign k v m)"

text \<open>\<^verbatim>\<open>m.find(k)\<close>: the mapped value, \<open>None\<close> for \<^verbatim>\<open>m.end()\<close>.\<close>

fun map_find :: "'v std_map \<Rightarrow> string \<Rightarrow> 'v option" where
  "map_find [] k = None"
| "map_find ((k', v') # m) k = (if k' = k then Some v' else map_find m k)"

text \<open>\<^verbatim>\<open>m.erase(k)\<close>: the map without the entry of \<open>k\<close>, and the number of entries removed.\<close>

fun map_erase :: "'v std_map \<Rightarrow> string \<Rightarrow> 'v std_map \<times> nat" where
  "map_erase [] k = ([], 0)"
| "map_erase ((k', v') # m) k =
     (if k' = k then (m, 1) else (case map_erase m k of (m', n) \<Rightarrow> ((k', v') # m', n)))"

subsection \<open>Exceptions\<close>

text \<open>
  The exception classes, each carrying the message of its \<^verbatim>\<open>std::runtime_error\<close>.
  The class hierarchy (every class derives from \<^verbatim>\<open>request_exception\<close>) plays no part
  in what follows.
\<close>

datatype request_exception =
    Request_exception string
  | Http_error string
  | Connection_error string
  | Proxy_error string
  | Ssl_error string
  | Timeout_error string
  | Connect_timeout string
  | Read_timeout string
  | Url_required string
  | Too_many_redirects string
  | Missing_schema string
  | Invalid_schema string
  | Invalid_url string
  | Invalid_proxy_url string
  | Invalid_header string
  | Invalid_json_error string
  | Chunked_encoding_error string
  | Content_decoding_error string
  | Stream_consumed_error string
  | Retry_error string
  | Unrewindable_body_error string

text \<open>
  How a call can end other than by returning: an exception leaves it, or it reaches
  through a null \<^verbatim>\<open>shared_ptr\<close> (see \<open>session_send\<close>). A call of result type
  \<open>failure + 'a\<close> returns \<open>Inr\<close> of its value when it returns.
\<close>

datatype failure = Throw request_exception | Null_dereference

subsection \<open>case_insensitive_dict\<close>

text \<open>
  The member \<^verbatim>\<open>data_\<close>: from the lower-cased key to the pair of the key as it was
  written and the value.
\<close>

type_synonym case_insensitive_dict = "(string \<times> string) std_map"

definition ci_set :: "case_insensitive_dict \<Rightarrow> string \<Rightarrow> string \<Rightarrow> case_insensitive_dict" where
  "ci_set d key val = map_assign (to_lower key) (key, val) d"

definition ci_get :: "case_insensitive_dict \<Rightarrow> string \<Rightarrow> string option" where
  "ci_get d key = (case map_find d (to_lower key) of Some (k, v) \<Rightarrow> Some v | None \<Rightarrow> None)"

definition ci_erase :: "case_insensitive_dict \<Rightarrow> string \<Rightarrow> case_insensitive_dict \<times> bool" where
  "ci_erase d key = (case map_erase d (to_lower key) of (d', n) \<Rightarrow> (d', 0 < n))"

definition ci_contains :: "case_insensitive_dict \<Rightarrow> string \<Rightarrow> bool" where
  "ci_contains d key = (map_find d (to_lower key) \<noteq> None)"

definition ci_empty :: "case_insensitive_dict \<Rightarrow> bool" where
  "ci_empty d = (d = [])"

text \<open>
  Two keys are case variants of each other when they have the same length and agree
  position by position up to the case of an ASCII letter. This is the specification's
  notion, written without \<open>to_lower\<close>.
\<close>

definition same_letter :: "char \<Rightarrow> char \<Rightarrow> bool" where
  "same_letter a b =
     (a = b
      \<or> (isupper a \<and> (of_char b :: nat) = of_char a + 32)
      \<or> (isupper b \<and> (of_char a :: nat) = of_char b + 32))"

definition case_variant :: "string \<Rightarrow> string \<Rightarrow> bool" where
  "case_variant k k' = list_all2 same_letter k k'"

subsection \<open>Plain data: timeout, cookies, hooks, files, proxies, TLS settings\<close>

text \<open>
  A \<^verbatim>\<open>std::byte\<close> is a \<^typ>\<open>char\<close>: both are one octet, and the
  \<^verbatim>\<open>reinterpret_cast\<close> that turns the characters of a string into bytes copies the
  octets as they are.
\<close>

type_synonym byte = char

text \<open>\<^verbatim>\<open>struct timeout\<close>, the two durations in milliseconds.\<close>

record timeout =
  connect :: "int option"
  read :: "int option"

text \<open>
  \<^verbatim>\<open>struct cookie\<close>, with \<^verbatim>\<open>expires\<close> as a number of clock ticks. The default
  member initialisers are those of \<open>cookie_init\<close>, the aggregate
  \<^verbatim>\<open>cookie{name, value}\<close>.
\<close>

record cookie =
  name :: string
  "value" :: string
  domain :: string
  path :: string
  domain_specified :: bool
  domain_initial_dot :: bool
  path_specified :: bool
  secure :: bool
  expires :: "int option"
  discard :: bool
  comment :: "string option"
  comment_url :: "string option"
  http_only :: bool
  version :: int
  rfc2109 :: bool

definition cookie_init :: "string \<Rightarrow> string \<Rightarrow> cookie" where
  "cookie_init name' value' =
     \<lparr> name = name', value = value', domain = [], path = ''/'',
       domain_specified = False, domain_initial_dot = False, path_specified = False,
       secure = False, expires = None, discard = True, comment = None,
       comment_url = None, http_only = False, version = 0, rfc2109 = False \<rparr>"

definition create_cookie ::
  "string \<Rightarrow> string \<Rightarrow> string \<Rightarrow> string \<Rightarrow> bool \<Rightarrow> int option \<Rightarrow> cookie" where
  "create_cookie name' value' domain' path' secure' expires' =
     \<lparr> name = name', value = value', domain = domain', path = path',
       domain_specified = False, domain_initial_dot = False, path_specified = False,
       secure = secure', expires = expires', discard = True, comment = None,
       comment_url = None, http_only = False, version = 0, rfc2109 = False \<rparr>"

text \<open>\<^verbatim>\<open>class cookie_jar\<close>: its only member is the vector \<^verbatim>\<open>cookies_\<close>.\<close>

type_synonym cookie_jar = "cookie list"

text \<open>
  \<^verbatim>\<open>cookie_jar::get\<close>: the loop over \<^verbatim>\<open>cookies_\<close>; each \<^verbatim>\<open>continue\<close> is a
  recursive call on the rest, the \<^verbatim>\<open>return\<close> ends the loop.
\<close>

fun cookie_jar_get ::
  "cookie_jar \<Rightarrow> string \<Rightarrow> string option \<Rightarrow> string option \<Rightarrow> string option" where
  "cookie_jar_get [] name' domain' path' = None"
| "cookie_jar_get (c # cs) name' domain' path' =
     (if name c \<noteq> name' then cookie_jar_get cs name' domain' path'
      else if (case domain' of Some d \<Rightarrow> domain c \<noteq> d | None \<Rightarrow> False)
        then cookie_jar_get cs name' domain' path'
      else if (case path' of Some p \<Rightarrow> path c \<noteq> p | None \<Rightarrow> False)
        then cookie_jar_get cs name' domain' path'
      else Some (value c))"

text \<open>\<^verbatim>\<open>cookie_jar::erase\<close>: \<^verbatim>\<open>remove_if\<close> on the name, and whether anything went.\<close>

definition cookie_jar_erase :: "cookie_jar \<Rightarrow> string \<Rightarrow> cookie_jar \<times> bool" where
  "cookie_jar_erase jar name' =
     (filter (\<lambda>c. name c \<noteq> name') jar, list_ex (\<lambda>c. name c = name') jar)"

text \<open>
  The second loop of \<^verbatim>\<open>cookie_jar::set\<close>: the first cookie of that name takes the
  value; with none, a new cookie is pushed at the back.
\<close>

fun set_first :: "cookie_jar \<Rightarrow> string \<Rightarrow> string \<Rightarrow> cookie_jar" where
  "set_first [] name' value' = [cookie_init name' value']"
| "set_first (c # cs) name' value' =
     (if name c = name' then c\<lparr>value := value'\<rparr> # cs else c # set_first cs name' value')"

definition cookie_jar_set :: "cookie_jar \<Rightarrow> string \<Rightarrow> string option \<Rightarrow> cookie_jar" where
  "cookie_jar_set jar name' value' =
     (case value' of
        None \<Rightarrow> fst (cookie_jar_erase jar name')
      | Some v \<Rightarrow> set_first jar name' v)"

text \<open>\<^verbatim>\<open>cookie_jar::set_cookie\<close>: \<^verbatim>\<open>cookies_.push_back(std::move(c))\<close>.\<close>

definition cookie_jar_set_cookie :: "cookie_jar \<Rightarrow> cookie \<Rightarrow> cookie_jar" where
  "cookie_jar_set_cookie jar c = jar @ [c]"

text \<open>\<^verbatim>\<open>cookie_jar::get_dict\<close>; the accumulator is \<^verbatim>\<open>result\<close>.\<close>

fun get_dict_loop ::
  "string std_map \<Rightarrow> cookie_jar \<Rightarrow> string option \<Rightarrow> string option \<Rightarrow> string std_map" where
  "get_dict_loop result [] domain' path' = result"
| "get_dict_loop result (c # cs) domain' path' =
     (if (case domain' of Some d \<Rightarrow> domain c \<noteq> d | None \<Rightarrow> False)
        then get_dict_loop result cs domain' path'
      else if (case path' of Some p \<Rightarrow> path c \<noteq> p | None \<Rightarrow> False)
        then get_dict_loop result cs domain' path'
      else get_dict_loop (map_assign (name c) (value c) result) cs domain' path')"

definition cookie_jar_get_dict ::
  "cookie_jar \<Rightarrow> string option \<Rightarrow> string option \<Rightarrow> string std_map" where
  "cookie_jar_get_dict jar domain' path' = get_dict_loop [] jar domain' path'"

text \<open>\<^verbatim>\<open>cookie_jar::update\<close>: \<^verbatim>\<open>set(k, v)\<close> for every entry of the map, in key order.\<close>

fun cookie_jar_update :: "cookie_jar \<Rightarrow> string std_map \<Rightarrow> cookie_jar" where
  "cookie_jar_update jar [] = jar"
| "cookie_jar_update jar ((k, v) # other) = cookie_jar_update (cookie_jar_set jar k (Some v)) other"

text \<open>
  \<^verbatim>\<open>struct hooks\<close>. A \<^verbatim>\<open>hook_fn\<close> is a \<^verbatim>\<open>std::function\<close>; the code stores and
  copies hooks and never calls one, so a hook is a number that names it.
\<close>

type_synonym hook_fn = nat

record hooks =
  response_hooks :: "hook_fn list"

definition default_hooks :: hooks where
  "default_hooks = \<lparr> response_hooks = [] \<rparr>"

record upload_file =
  field_name :: string
  filename :: string
  file_content :: "byte list"
  content_type :: "string option"
  file_headers :: "case_insensitive_dict option"

type_synonym files_dict = "upload_file list"

record proxy_config =
  http :: "string option"
  https :: "string option"
  socks5 :: "string option"

definition proxy_config_init :: proxy_config where
  "proxy_config_init = \<lparr> http = None, https = None, socks5 = None \<rparr>"

text \<open>\<^verbatim>\<open>verify_config\<close> is \<^verbatim>\<open>std::variant<bool, std::string>\<close>.\<close>

datatype verify_config = Verify_bool bool | Verify_path string

record cert_config =
  cert_path :: string
  key_path :: "string option"

text \<open>The request body as the caller gives it: \<^verbatim>\<open>std::variant<std::string, std::vector<std::byte>>\<close>.\<close>

datatype body_data = Data_string string | Data_bytes "byte list"

subsection \<open>Authentication handlers\<close>

text \<open>
  The three handlers of the file, each with the user name and password it was built
  from. A \<^verbatim>\<open>std::shared_ptr<auth_base>\<close> is an \<open>auth_base option\<close>, \<open>None\<close> the
  null pointer. Handlers a caller derives from \<^verbatim>\<open>auth_base\<close> are not modelled.
\<close>

datatype auth_base =
    Http_basic_auth string string
  | Http_digest_auth string string
  | Http_proxy_auth string string

subsection \<open>request_options\<close>

record request_options =
  params :: "string std_map option"
  data :: "body_data option"
  json :: "string option"
  headers :: "case_insensitive_dict option"
  cookies :: "cookie_jar option"
  files :: "files_dict option"
  auth :: "auth_base option option"
  timeout_cfg :: "timeout option"
  allow_redirects :: "bool option"
  proxies :: "proxy_config option"
  hooks_cfg :: "hooks option"
  stream :: "bool option"
  verify :: "verify_config option"
  cert :: "cert_config option"

text \<open>\<^verbatim>\<open>request_options{}\<close>: every field \<^verbatim>\<open>std::nullopt\<close>.\<close>

definition request_options_init :: request_options where
  "request_options_init =
     \<lparr> params = None, data = None, json = None, headers = None, cookies = None,
       files = None, auth = None, timeout_cfg = None, allow_redirects = None,
       proxies = None, hooks_cfg = None, stream = None, verify = None, cert = None \<rparr>"

subsection \<open>prepared_request\<close>

text \<open>
  \<^verbatim>\<open>class prepared_request\<close>: the field \<open>pr_method\<close> is the member
  \<^verbatim>\<open>method_\<close>, and so on for the other six.
\<close>

record prepared_request =
  pr_method :: string
  pr_url :: string
  pr_headers :: case_insensitive_dict
  pr_body :: "byte list"
  pr_hooks :: hooks
  pr_cookies :: cookie_jar
  pr_body_position :: "nat option"

text \<open>A default-constructed \<^verbatim>\<open>prepared_request\<close>.\<close>

definition prepared_request_init :: prepared_request where
  "prepared_request_init =
     \<lparr> pr_method = [], pr_url = [], pr_headers = [], pr_body = [], pr_hooks = default_hooks,
       pr_cookies = [], pr_body_position = None \<rparr>"

text \<open>
  \<^verbatim>\<open>operator()\<close> of the handlers: the body of each of the three is \<^verbatim>\<open>{}\<close>, so the
  request comes back as it went in.
\<close>

fun auth_call :: "auth_base \<Rightarrow> prepared_request \<Rightarrow> failure + prepared_request" where
  "auth_call (Http_basic_auth username password) r = Inr r"
| "auth_call (Http_digest_auth username password) r = Inr r"
| "auth_call (Http_proxy_auth username password) r = Inr r"

text \<open>
  The steps of preparation. None of them has a \<^verbatim>\<open>throw\<close>; they have the result
  type of a call that may fail so that \<open>prepare\<close> can chain them and so that what
  they do on an input is stated as an outcome.
\<close>

definition prepare_method :: "prepared_request \<Rightarrow> string \<Rightarrow> failure + prepared_request" where
  "prepare_method pr method = Inr (pr\<lparr>pr_method := map toupper method\<rparr>)"

text \<open>
  The loop of \<^verbatim>\<open>prepare_url\<close> over the parameters; \<open>first\<close> is the flag of the
  source and \<open>u\<close> is \<^verbatim>\<open>url_\<close>.
\<close>

fun append_params :: "bool \<Rightarrow> string \<Rightarrow> string std_map \<Rightarrow> string" where
  "append_params first u [] = u"
| "append_params first u ((k, v) # ps) =
     append_params False ((if \<not> first then u @ ''&'' else u) @ (k @ ''='' @ v)) ps"

definition prepare_url ::
  "prepared_request \<Rightarrow> string \<Rightarrow> string std_map option \<Rightarrow> failure + prepared_request" where
  "prepare_url pr url params' =
     (case params' of
        None \<Rightarrow> Inr (pr\<lparr>pr_url := url\<rparr>)
      | Some ps \<Rightarrow>
          if ps \<noteq> []
          then Inr (pr\<lparr>pr_url :=
                 append_params True
                   (url @ (if find_str url ''?'' = None then ''?'' else ''&'')) ps\<rparr>)
          else Inr (pr\<lparr>pr_url := url\<rparr>))"

definition prepare_headers ::
  "prepared_request \<Rightarrow> case_insensitive_dict \<Rightarrow> failure + prepared_request" where
  "prepare_headers pr headers' = Inr (pr\<lparr>pr_headers := headers'\<rparr>)"

definition prepare_cookies :: "prepared_request \<Rightarrow> cookie_jar \<Rightarrow> failure + prepared_request" where
  "prepare_cookies pr cookies' = Inr (pr\<lparr>pr_cookies := cookies'\<rparr>)"

definition prepare_content_length :: "prepared_request \<Rightarrow> failure + prepared_request" where
  "prepare_content_length pr =
     (if pr_body pr \<noteq> []
      then Inr (pr\<lparr>pr_headers :=
             ci_set (pr_headers pr) ''Content-Length'' (digits (length (pr_body pr)))\<rparr>)
      else Inr pr)"

text \<open>
  \<^verbatim>\<open>prepare_body\<close>. The parameter \<open>files'\<close> is the \<^verbatim>\<open>files\<close> of the source, which
  the body of the function never reads.
\<close>

definition prepare_body ::
  "prepared_request \<Rightarrow> body_data option \<Rightarrow> files_dict option \<Rightarrow> string option
     \<Rightarrow> failure + prepared_request" where
  "prepare_body pr data' files' json' =
     prepare_content_length
       (case json' of
          Some s \<Rightarrow>
            pr\<lparr>pr_body := s, pr_headers := ci_set (pr_headers pr) ''Content-Type'' ''application/json''\<rparr>
        | None \<Rightarrow>
            (case data' of
               Some (Data_string s) \<Rightarrow> pr\<lparr>pr_body := s\<rparr>
             | Some (Data_bytes b) \<Rightarrow> pr\<lparr>pr_body := b\<rparr>
             | None \<Rightarrow> pr))"

definition prepare_auth :: "prepared_request \<Rightarrow> auth_base \<Rightarrow> failure + prepared_request" where
  "prepare_auth pr auth' = auth_call auth' pr"

definition prepare_hooks :: "prepared_request \<Rightarrow> hooks \<Rightarrow> failure + prepared_request" where
  "prepare_hooks pr h = Inr (pr\<lparr>pr_hooks := h\<rparr>)"

text \<open>Sequencing: the next step runs on the object the previous one returned.\<close>

definition and_then ::
  "failure + 'a \<Rightarrow> ('a \<Rightarrow> failure + 'b) \<Rightarrow> failure + 'b" where
  "and_then r f = (case r of Inl e \<Rightarrow> Inl e | Inr x \<Rightarrow> f x)"

text \<open>\<^verbatim>\<open>prepared_request::prepare\<close>, the seven steps in the order of the source.\<close>

definition prepare ::
  "prepared_request \<Rightarrow> string \<Rightarrow> string \<Rightarrow> case_insensitive_dict option
     \<Rightarrow> files_dict option \<Rightarrow> body_data option \<Rightarrow> string std_map option
     \<Rightarrow> auth_base option option \<Rightarrow> cookie_jar option \<Rightarrow> hooks option \<Rightarrow> string option
     \<Rightarrow> failure + prepared_request" where
  "prepare pr method url headers' files' data' params' auth' cookies' hooks_cfg' json' =
     and_then (prepare_method pr method) (\<lambda>pr.
     and_then (prepare_url pr url params') (\<lambda>pr.
     and_then (case headers' of Some h \<Rightarrow> prepare_headers pr h | None \<Rightarrow> Inr pr) (\<lambda>pr.
     and_then (case cookies' of Some c \<Rightarrow> prepare_cookies pr c | None \<Rightarrow> Inr pr) (\<lambda>pr.
     and_then (prepare_body pr data' files' json') (\<lambda>pr.
     and_then (case auth' of Some (Some a) \<Rightarrow> prepare_auth pr a | _ \<Rightarrow> Inr pr) (\<lambda>pr.
     (case hooks_cfg' of Some h \<Rightarrow> prepare_hooks pr h | None \<Rightarrow> Inr pr)))))))"

text \<open>
  \<^verbatim>\<open>utils::prepend_scheme_if_needed\<close>, where the code asks whether a URL has a
  scheme: it has one when \<^verbatim>\<open>"://"\<close> occurs in it.
\<close>

definition prepend_scheme_if_needed :: "string \<Rightarrow> string \<Rightarrow> string" where
  "prepend_scheme_if_needed url scheme =
     (if find_str url ''://'' \<noteq> None then url else scheme @ ''://'' @ url)"

subsection \<open>response\<close>

text \<open>
  \<^verbatim>\<open>class response\<close>; a datatype, since \<^verbatim>\<open>history_\<close> is a vector of responses. The
  selectors are the members without their underscore, prefixed where the name is
  taken. \<^verbatim>\<open>elapsed_\<close> is in milliseconds, \<^verbatim>\<open>request_\<close> is \<open>None\<close> for the null
  pointer.
\<close>

datatype response = Response
  (status_code: int)
  (resp_headers: case_insensitive_dict)
  (resp_url: string)
  (resp_content: "byte list")
  (encoding: string)
  (reason: string)
  (resp_cookies: cookie_jar)
  (elapsed: int)
  (history: "response list")
  (resp_request: "prepared_request option")

text \<open>A default-constructed \<^verbatim>\<open>response\<close>.\<close>

definition response_init :: response where
  "response_init = Response 0 [] [] [] [] [] [] 0 [] None"

fun set_status_code :: "response \<Rightarrow> int \<Rightarrow> response" where
  "set_status_code (Response sc h u c e r ck el hi rq) code = Response code h u c e r ck el hi rq"

fun set_reason :: "response \<Rightarrow> string \<Rightarrow> response" where
  "set_reason (Response sc h u c e r ck el hi rq) r' = Response sc h u c e r' ck el hi rq"

fun set_url :: "response \<Rightarrow> string \<Rightarrow> response" where
  "set_url (Response sc h u c e r ck el hi rq) u' = Response sc h u' c e r ck el hi rq"

definition ok :: "response \<Rightarrow> bool" where
  "ok r = (status_code r < 400)"

definition is_redirect :: "response \<Rightarrow> bool" where
  "is_redirect r =
     ((status_code r = 301 \<or> status_code r = 302 \<or> status_code r = 303
       \<or> status_code r = 307 \<or> status_code r = 308)
      \<and> ci_contains (resp_headers r) ''Location'')"

text \<open>
  \<^verbatim>\<open>response::raise_for_status\<close>. The function is \<^verbatim>\<open>const\<close>: when it returns, the
  response is as it was, and the result is the unit value.
\<close>

definition raise_for_status :: "response \<Rightarrow> failure + unit" where
  "raise_for_status r =
     (if status_code r \<ge> 400
      then Inl (Throw (Http_error (to_string (status_code r) @ '' '' @ reason r)))
      else Inr ())"

subsection \<open>request\<close>

text \<open>
  \<^verbatim>\<open>class request\<close>, the request before preparation; \<open>req_method\<close> is the member
  \<^verbatim>\<open>method_\<close>, and so on.
\<close>

record request =
  req_method :: string
  req_url :: string
  req_headers :: case_insensitive_dict
  req_files :: files_dict
  req_data :: body_data
  req_params :: "string std_map"
  req_auth :: "auth_base option"
  req_cookies :: cookie_jar
  req_hooks :: hooks
  req_json :: "string option"

text \<open>
  The constructor: a member keeps its default where the argument is \<^verbatim>\<open>nullopt\<close>.
  The default of the variant \<^verbatim>\<open>data_\<close> is its first alternative, the empty string.
\<close>

definition request_ctor ::
  "string \<Rightarrow> string \<Rightarrow> case_insensitive_dict option \<Rightarrow> files_dict option
     \<Rightarrow> body_data option \<Rightarrow> string std_map option \<Rightarrow> auth_base option option
     \<Rightarrow> cookie_jar option \<Rightarrow> hooks option \<Rightarrow> string option \<Rightarrow> request" where
  "request_ctor method url headers' files' data' params' auth' cookies' hooks_cfg' json' =
     \<lparr> req_method = method,
       req_url = url,
       req_headers = (case headers' of Some h \<Rightarrow> h | None \<Rightarrow> []),
       req_files = (case files' of Some f \<Rightarrow> f | None \<Rightarrow> []),
       req_data = (case data' of Some d \<Rightarrow> d | None \<Rightarrow> Data_string []),
       req_params = (case params' of Some p \<Rightarrow> p | None \<Rightarrow> []),
       req_auth = (case auth' of Some a \<Rightarrow> a | None \<Rightarrow> None),
       req_cookies = (case cookies' of Some c \<Rightarrow> c | None \<Rightarrow> []),
       req_hooks = (case hooks_cfg' of Some h \<Rightarrow> h | None \<Rightarrow> default_hooks),
       req_json = json' \<rparr>"

text \<open>\<^verbatim>\<open>request::prepare\<close>: a fresh \<^verbatim>\<open>prepared_request\<close>, prepared from the members.\<close>

definition request_prepare :: "request \<Rightarrow> failure + prepared_request" where
  "request_prepare req =
     prepare prepared_request_init (req_method req) (req_url req)
       (if ci_empty (req_headers req) then None else Some (req_headers req))
       (if req_files req = [] then None else Some (req_files req))
       (Some (req_data req))
       (if req_params req = [] then None else Some (req_params req))
       (if req_auth req \<noteq> None then Some (req_auth req) else None)
       (if req_cookies req = [] then None else Some (req_cookies req))
       (Some (req_hooks req))
       (req_json req)"

subsection \<open>task: the coroutine frames\<close>

text \<open>
  The call of a coroutine runs nothing of its body: it makes a frame that holds copies
  of the arguments and is suspended at its initial suspend point
  (\<^verbatim>\<open>initial_suspend\<close> is \<^verbatim>\<open>suspend_always\<close>), with a promise whose
  \<^verbatim>\<open>value_\<close> is default-constructed and whose \<^verbatim>\<open>exception_\<close> is null. A resumed
  frame runs to its next suspension: a \<^verbatim>\<open>co_await\<close> in its body, or its final
  suspend point, which it reaches when the body has handed a value to
  \<^verbatim>\<open>co_return\<close> or has let an exception out (\<^verbatim>\<open>unhandled_exception\<close> stores it).

  The bodies below are functions of their arguments, so a frame is written as what
  is still to come: \<open>Final r\<close> is a frame at its final suspend point, the promise
  holding the value or the exception \<open>r\<close>; \<open>Suspended k\<close> is a frame suspended
  before that, which is in state \<open>k\<close> at its next suspension once resumed.
\<close>

datatype 'a frame = Final "failure + 'a" | Suspended "'a frame"

text \<open>A \<^verbatim>\<open>task\<close> owns a frame; \<open>task_args\<close> are the arguments copied into it.\<close>

datatype ('p, 'a) task = Task (task_args: 'p) (task_frame: "'a frame")

text \<open>
  \<^verbatim>\<open>handle_.resume()\<close>. Every resume in the file is the one in
  \<^verbatim>\<open>await_suspend\<close>, on a task that has just been made; a frame at its final suspend
  point is never resumed, and is left as it is here.
\<close>

fun resume :: "'a frame \<Rightarrow> 'a frame" where
  "resume (Suspended k) = k"
| "resume (Final r) = Final r"

text \<open>
  \<^verbatim>\<open>task::await_suspend\<close>: it resumes the frame of the task once and drops the handle
  of the awaiting coroutine, which therefore stays suspended when the awaited frame
  suspends or ends; nothing in \<^verbatim>\<open>task\<close> resumes it.
\<close>

definition await_suspend :: "('p, 'a) task \<Rightarrow> ('p, 'a) task" where
  "await_suspend t = Task (task_args t) (resume (task_frame t))"

text \<open>
  \<^verbatim>\<open>task::await_resume\<close>, which runs when the awaiting coroutine is resumed: it
  rethrows the exception of the promise if there is one, and returns
  \<^verbatim>\<open>value_\<close> otherwise. When the frame has not reached its final suspend point
  the promise has no exception and \<^verbatim>\<open>value_\<close> is still the default-constructed
  value, the argument \<open>dflt\<close>.
\<close>

definition await_resume :: "'a \<Rightarrow> ('p, 'a) task \<Rightarrow> failure + 'a" where
  "await_resume dflt t = (case task_frame t of Final r \<Rightarrow> r | Suspended k \<Rightarrow> Inr dflt)"

subsection \<open>Transport adapters\<close>

text \<open>
  \<^verbatim>\<open>base_adapter\<close> is abstract. \<open>Http_adapter\<close> is the one adapter of the file, with
  its four members; \<open>Custom_adapter\<close> stands for a class the caller derives from
  \<^verbatim>\<open>base_adapter\<close> and mounts. Its \<^verbatim>\<open>send\<close> is a coroutine too, given by the state
  its frame is in after the first resume, as a function of the six arguments. An
  adapter with a state of its own, and a \<^verbatim>\<open>send\<close> that throws before it has made
  its task, are not modelled.
\<close>

type_synonym send_args =
  "prepared_request \<times> bool \<times> timeout option \<times> verify_config \<times> cert_config option
     \<times> proxy_config option"

type_synonym send_fn =
  "prepared_request \<Rightarrow> bool \<Rightarrow> timeout option \<Rightarrow> verify_config \<Rightarrow> cert_config option
     \<Rightarrow> proxy_config option \<Rightarrow> response frame"

datatype base_adapter =
    Http_adapter (pool_connections: int) (pool_maxsize: int) (max_retries: int) (pool_block: bool)
  | Custom_adapter send_fn

definition default_pool_size :: int where
  "default_pool_size = 10"

definition default_retries :: int where
  "default_retries = 0"

definition default_pool_block :: bool where
  "default_pool_block = False"

definition default_redirect_limit :: int where
  "default_redirect_limit = 30"

text \<open>
  \<^verbatim>\<open>http_adapter::send\<close>. The body has no \<^verbatim>\<open>co_await\<close>: the first resume runs it
  to \<^verbatim>\<open>co_return r\<close>, a fresh response with status 200, reason OK and the URL of
  the request.
\<close>

definition http_adapter_send ::
  "prepared_request \<Rightarrow> bool \<Rightarrow> timeout option \<Rightarrow> verify_config \<Rightarrow> cert_config option
     \<Rightarrow> proxy_config option \<Rightarrow> (send_args, response) task" where
  "http_adapter_send request' stream' timeout_cfg' verify' cert' proxies' =
     Task (request', stream', timeout_cfg', verify', cert', proxies')
       (Suspended
         (Final (Inr (set_url (set_reason (set_status_code response_init 200) ''OK'')
            (pr_url request')))))"

text \<open>The virtual call \<^verbatim>\<open>adapter->send(...)\<close>.\<close>

fun adapter_send ::
  "base_adapter \<Rightarrow> prepared_request \<Rightarrow> bool \<Rightarrow> timeout option \<Rightarrow> verify_config
     \<Rightarrow> cert_config option \<Rightarrow> proxy_config option \<Rightarrow> (send_args, response) task" where
  "adapter_send (Http_adapter pc pm mr pb) request' stream' timeout_cfg' verify' cert' proxies' =
     http_adapter_send request' stream' timeout_cfg' verify' cert' proxies'"
| "adapter_send (Custom_adapter f) request' stream' timeout_cfg' verify' cert' proxies' =
     Task (request', stream', timeout_cfg', verify', cert', proxies')
       (Suspended (f request' stream' timeout_cfg' verify' cert' proxies'))"

subsection \<open>session\<close>

text \<open>
  \<^verbatim>\<open>class session\<close>; \<open>sess_headers\<close> is the member \<^verbatim>\<open>headers_\<close>, and so on. A
  \<^verbatim>\<open>std::shared_ptr<base_adapter>\<close> is a \<open>base_adapter option\<close>, \<open>None\<close> the null
  pointer.
\<close>

record session =
  sess_headers :: case_insensitive_dict
  sess_cookies :: cookie_jar
  sess_auth :: "auth_base option"
  sess_proxies :: proxy_config
  sess_hooks :: hooks
  sess_params :: "string std_map"
  sess_stream :: bool
  sess_verify :: verify_config
  sess_cert :: "cert_config option"
  sess_max_redirects :: int
  sess_trust_env :: bool
  sess_adapters :: "base_adapter option std_map"

text \<open>The constructor \<^verbatim>\<open>session()\<close>: the default members, four headers, two adapters.\<close>

definition session_init :: session where
  "session_init =
     \<lparr> sess_headers =
         ci_set (ci_set (ci_set (ci_set [] ''User-Agent'' ''requests-cpp/1.0'')
           ''Accept'' ''*/*'') ''Accept-Encoding'' ''gzip, deflate'') ''Connection'' ''keep-alive'',
       sess_cookies = [],
       sess_auth = None,
       sess_proxies = proxy_config_init,
       sess_hooks = default_hooks,
       sess_params = [],
       sess_stream = False,
       sess_verify = Verify_bool True,
       sess_cert = None,
       sess_max_redirects = default_redirect_limit,
       sess_trust_env = True,
       sess_adapters =
         map_assign ''http://''
           (Some (Http_adapter default_pool_size default_pool_size default_retries default_pool_block))
           (map_assign ''https://''
             (Some (Http_adapter default_pool_size default_pool_size default_retries default_pool_block))
             []) \<rparr>"

definition set_max_redirects :: "session \<Rightarrow> int \<Rightarrow> session" where
  "set_max_redirects s m = s\<lparr>sess_max_redirects := m\<rparr>"

definition mount :: "session \<Rightarrow> string \<Rightarrow> base_adapter option \<Rightarrow> session" where
  "mount s prefix adapter = s\<lparr>sess_adapters := map_assign prefix adapter (sess_adapters s)\<rparr>"

text \<open>
  \<^verbatim>\<open>session::get_adapter\<close>. The loop returns the adapter of the first prefix, in key
  order, that the URL starts with (\<^verbatim>\<open>url.substr(0, prefix.size()) == prefix\<close>). With
  none, the result is \<^verbatim>\<open>adapters_["http://"]\<close>, which is the null pointer when
  the map has no such key (the entry that \<^verbatim>\<open>operator[]\<close> then adds to the map is not
  recorded: the caller reaches through the null pointer next).
\<close>

fun get_adapter_loop :: "base_adapter option std_map \<Rightarrow> string \<Rightarrow> base_adapter option option" where
  "get_adapter_loop [] url = None"
| "get_adapter_loop ((prefix, adapter) # rest) url =
     (if take (length prefix) url = prefix then Some adapter else get_adapter_loop rest url)"

definition get_adapter :: "session \<Rightarrow> string \<Rightarrow> base_adapter option" where
  "get_adapter s url =
     (case get_adapter_loop (sess_adapters s) url of
        Some adapter \<Rightarrow> adapter
      | None \<Rightarrow>
          (case map_find (sess_adapters s) ''http://'' of
             Some adapter \<Rightarrow> adapter
           | None \<Rightarrow> None))"

text \<open>
  \<^verbatim>\<open>session::send\<close>, whose body is
  \<^verbatim>\<open>auto adapter = get_adapter(prepped.url()); co_return co_await adapter->send(...)\<close>.
  The first resume runs \<^verbatim>\<open>get_adapter\<close>, makes the task of the adapter and, in
  \<^verbatim>\<open>await_suspend\<close>, resumes it once; the frame is then suspended at the
  \<^verbatim>\<open>co_await\<close>. The second resume runs \<^verbatim>\<open>await_resume\<close> on that task and
  hands what it yields to \<^verbatim>\<open>co_return\<close>. With a null adapter the first resume
  reaches through the null pointer.
\<close>

definition session_send ::
  "session \<Rightarrow> prepared_request \<Rightarrow> request_options
     \<Rightarrow> (prepared_request \<times> request_options, response) task" where
  "session_send s prepped opts =
     Task (prepped, opts)
       (Suspended
         (case get_adapter s (pr_url prepped) of
            None \<Rightarrow> Final (Inl Null_dereference)
          | Some adapter \<Rightarrow>
              Suspended
                (Final
                  (await_resume response_init
                    (await_suspend
                      (adapter_send adapter prepped
                        (case stream opts of Some b \<Rightarrow> b | None \<Rightarrow> sess_stream s)
                        (timeout_cfg opts)
                        (case verify opts of Some v \<Rightarrow> v | None \<Rightarrow> sess_verify s)
                        (if cert opts \<noteq> None then cert opts else sess_cert s)
                        (if proxies opts \<noteq> None then proxies opts
                         else Some (sess_proxies s))))))))"

definition prepare_request :: "session \<Rightarrow> request \<Rightarrow> failure + prepared_request" where
  "prepare_request s req = request_prepare req"

text \<open>
  \<^verbatim>\<open>session::request\<close>. The first resume builds the request, prepares it, makes the
  task of \<^verbatim>\<open>send\<close> and resumes it once; the frame is then suspended at the
  \<^verbatim>\<open>co_await\<close>. The second resume hands what \<^verbatim>\<open>await_resume\<close> yields on the
  task of \<^verbatim>\<open>send\<close> to \<^verbatim>\<open>co_return\<close>.
\<close>

definition session_request ::
  "session \<Rightarrow> string \<Rightarrow> string \<Rightarrow> request_options
     \<Rightarrow> (string \<times> string \<times> request_options, response) task" where
  "session_request s method url opts =
     Task (method, url, opts)
       (Suspended
         (case prepare_request s
                 (request_ctor method url (headers opts) (files opts) (data opts) (params opts)
                    (auth opts) (cookies opts) (hooks_cfg opts) (json opts)) of
            Inl e \<Rightarrow> Final (Inl e)
          | Inr prepped \<Rightarrow>
              Suspended
                (Final (await_resume response_init (await_suspend (session_send s prepped opts))))))"

text \<open>
  \<^verbatim>\<open>session::get\<close>, \<^verbatim>\<open>post\<close> and \<^verbatim>\<open>head\<close> are no coroutines: each returns the
  task that its call of \<^verbatim>\<open>request\<close> makes.
\<close>

definition session_get ::
  "session \<Rightarrow> string \<Rightarrow> request_options
     \<Rightarrow> (string \<times> string \<times> request_options, response) task" where
  "session_get s url opts = session_request s ''GET'' url opts"

definition session_post ::
  "session \<Rightarrow> string \<Rightarrow> request_options
     \<Rightarrow> (string \<times> string \<times> request_options, response) task" where
  "session_post s url opts = session_request s ''POST'' url opts"

text \<open>\<^verbatim>\<open>session::head\<close>: the assignment to \<^verbatim>\<open>opts.allow_redirects\<close>, then \<^verbatim>\<open>request\<close>.\<close>

definition session_head ::
  "session \<Rightarrow> string \<Rightarrow> request_options
     \<Rightarrow> (string \<times> string \<times> request_options, response) task" where
  "session_head s url opts = session_request s ''HEAD'' url (opts\<lparr>allow_redirects := Some False\<rparr>)"

subsection \<open>The top-level functions\<close>

text \<open>
  \<^verbatim>\<open>requests::request\<close>, whose body is
  \<^verbatim>\<open>session s; co_return co_await s.request(method, url, std::move(opts))\<close>: the first
  resume makes the session and the task of \<^verbatim>\<open>s.request\<close> and resumes that task
  once, the second hands what \<^verbatim>\<open>await_resume\<close> yields on it to \<^verbatim>\<open>co_return\<close>.
\<close>

definition request ::
  "string \<Rightarrow> string \<Rightarrow> request_options
     \<Rightarrow> (string \<times> string \<times> request_options, response) task" where
  "request method url opts =
     Task (method, url, opts)
       (Suspended
         (Suspended
           (Final
             (await_resume response_init
               (await_suspend (session_request session_init method url opts))))))"

definition get ::
  "string \<Rightarrow> request_options \<Rightarrow> (string \<times> string \<times> request_options, response) task" where
  "get url opts = request ''GET'' url opts"

definition head ::
  "string \<Rightarrow> request_options \<Rightarrow> (string \<times> string \<times> request_options, response) task" where
  "head url opts = request ''HEAD'' url (opts\<lparr>allow_redirects := Some False\<rparr>)"

section \<open>Properties\<close>

subsection \<open>The std::map model\<close>

lemma map_find_assign_same: "map_find (map_assign k v m) k = Some v"
  by (induction m) auto

lemma map_find_assign_other: "k' \<noteq> k \<Longrightarrow> map_find (map_assign k v m) k' = map_find m k'"
  by (induction m) auto

subsection \<open>Case folding\<close>

lemma tolower_not_upper: "\<not> isupper a \<Longrightarrow> tolower a = a"
  by (simp add: tolower_def)




text \<open>Conversely, two keys that \<open>to_lower\<close> maps to the same string are case variants.\<close>

lemma of_char_tolower:
  assumes "isupper a"
  shows "(of_char (tolower a) :: nat) = of_char a + 32"
proof -
  have "(of_char a :: nat) + 32 < 256"
    using assms unfolding isupper_def by linarith
  then have "((of_char a :: nat) + 32) mod 256 = of_char a + 32"
    by (rule mod_less)
  with assms show ?thesis
    by (simp add: tolower_def)
qed

lemma tolower_same_letter:
  assumes "tolower a = tolower b"
  shows "same_letter a b"
proof (cases "isupper a")
  case a: True
  show ?thesis
  proof (cases "isupper b")
    case True
    have "(of_char (tolower a) :: nat) = of_char (tolower b)"
      using assms by simp
    then have "(of_char a :: nat) = of_char b"
      using a True by (simp add: of_char_tolower)
    then have "a = b"
      by simp
    then show ?thesis
      by (simp add: same_letter_def)
  next
    case False
    then have "tolower a = b"
      using assms by (simp add: tolower_not_upper)
    then have "(of_char b :: nat) = of_char a + 32"
      using a of_char_tolower by blast
    with a show ?thesis
      by (simp add: same_letter_def)
  qed
next
  case a: False
  show ?thesis
  proof (cases "isupper b")
    case True
    have "tolower b = a"
      using assms a by (simp add: tolower_not_upper)
    then have "(of_char a :: nat) = of_char b + 32"
      using True of_char_tolower by blast
    with True show ?thesis
      by (simp add: same_letter_def)
  next
    case False
    with a assms have "a = b"
      by (simp add: tolower_not_upper)
    then show ?thesis
      by (simp add: same_letter_def)
  qed
qed

lemma to_lower_case_variant: "to_lower k = to_lower k' \<Longrightarrow> case_variant k k'"
  unfolding case_variant_def to_lower_def
  by (induction k arbitrary: k') (auto dest: tolower_same_letter)

subsection \<open>C9: the case-insensitive header store\<close>



subsection \<open>C2: which cookies a read of the jar returns\<close>

text \<open>
  C2, as the specification states it, fails on the code. A jar holds one cookie of
  domain \<open>.example.com\<close> and path \<open>/a\<close>. A read for the host
  \<open>sub.example.com\<close> finds nothing, a read for the host \<open>example.com\<close> finds
  nothing, and a read for the path \<open>/a/b\<close> finds nothing, where the claim has all
  three match.
\<close>

theorem cookie_jar_get_counterexample:
  "cookie_jar_get
     (cookie_jar_set_cookie [] (create_cookie ''sid'' ''v'' ''.example.com'' ''/a'' False None))
     ''sid'' (Some ''sub.example.com'') None = None
   \<and> cookie_jar_get
     (cookie_jar_set_cookie [] (create_cookie ''sid'' ''v'' ''.example.com'' ''/a'' False None))
     ''sid'' (Some ''example.com'') None = None
   \<and> cookie_jar_get
     (cookie_jar_set_cookie [] (create_cookie ''sid'' ''v'' ''.example.com'' ''/a'' False None))
     ''sid'' None (Some ''/a/b'') = None"
  by (simp add: cookie_jar_set_cookie_def create_cookie_def)

text \<open>
  C2, amended. For every jar, name and optional domain and path, \<open>get\<close> returns the
  value of the first cookie of the jar whose name is the name asked for, whose
  domain is equal to the domain asked for when one is given, and whose path is equal
  to the path asked for when one is given; it returns nothing when the jar has no such
  cookie. Domains and paths are compared as whole strings: a leading dot has no
  meaning and a path does not match the paths below it.
\<close>

theorem cookie_jar_get_exact:
  "cookie_jar_get jar name' domain' path' =
     map_option value
       (find (\<lambda>c. name c = name'
                 \<and> (domain' = None \<or> domain' = Some (domain c))
                 \<and> (path' = None \<or> path' = Some (path c))) jar)"
proof (induction jar)
  case Nil
  show ?case by simp
next
  case (Cons c cs)
  show ?case
  proof (cases "name c = name'")
    case False
    with Cons show ?thesis by simp
  next
    case True
    show ?thesis
    proof (cases domain')
      case None
      with True Cons show ?thesis
        by (cases path') auto
    next
      case (Some d)
      with True Cons show ?thesis
        by (cases path') auto
    qed
  qed
qed

subsection \<open>C7: set_cookie\<close>

lemma cookie_jar_get_append:
  "cookie_jar_get (jar @ jar') name' domain' path' =
     (case cookie_jar_get jar name' domain' path' of
        Some v \<Rightarrow> Some v
      | None \<Rightarrow> cookie_jar_get jar' name' domain' path')"
  by (induction jar) auto

text \<open>
  What \<open>set_cookie\<close> does to every jar: the jar is one longer, the entries it had
  are where they were, the new cookie is the last entry, and \<open>get\<close> returns what it
  returned before whenever it returned something.
\<close>

lemma set_cookie_appends:
  "length (cookie_jar_set_cookie jar c) = Suc (length jar)
   \<and> take (length jar) (cookie_jar_set_cookie jar c) = jar
   \<and> last (cookie_jar_set_cookie jar c) = c
   \<and> cookie_jar_get (cookie_jar_set_cookie jar c) name' domain' path' =
       (case cookie_jar_get jar name' domain' path' of
          Some v \<Rightarrow> Some v
        | None \<Rightarrow> cookie_jar_get [c] name' domain' path')"
  by (simp add: cookie_jar_set_cookie_def cookie_jar_get_append)

text \<open>
  C7 on the code. Two cookies of the same name, domain and path are put into an
  empty jar with \<open>set_cookie\<close>, one after the other. The jar then holds both,
  where the claim has the second replace the first. The two reads of the jar
  disagree on it: \<open>get\<close> returns the value of the older cookie and \<open>get_dict\<close>
  that of the newer one. The sibling \<open>set\<close>, called with the same name on the jar
  of the first cookie, replaces the value in place and leaves one entry.
\<close>

theorem set_cookie_keeps_both_entries:
  "cookie_jar_set_cookie
     (cookie_jar_set_cookie [] (create_cookie ''sid'' ''old'' ''example.com'' ''/'' False None))
     (create_cookie ''sid'' ''new'' ''example.com'' ''/'' False None)
   = [create_cookie ''sid'' ''old'' ''example.com'' ''/'' False None,
      create_cookie ''sid'' ''new'' ''example.com'' ''/'' False None]
   \<and> cookie_jar_get
       (cookie_jar_set_cookie
         (cookie_jar_set_cookie [] (create_cookie ''sid'' ''old'' ''example.com'' ''/'' False None))
         (create_cookie ''sid'' ''new'' ''example.com'' ''/'' False None))
       ''sid'' (Some ''example.com'') (Some ''/'') = Some ''old''
   \<and> cookie_jar_get_dict
       (cookie_jar_set_cookie
         (cookie_jar_set_cookie [] (create_cookie ''sid'' ''old'' ''example.com'' ''/'' False None))
         (create_cookie ''sid'' ''new'' ''example.com'' ''/'' False None))
       (Some ''example.com'') (Some ''/'') = [(''sid'', ''new'')]
   \<and> cookie_jar_set
       (cookie_jar_set_cookie [] (create_cookie ''sid'' ''old'' ''example.com'' ''/'' False None))
       ''sid'' (Some ''new'')
   = [create_cookie ''sid'' ''new'' ''example.com'' ''/'' False None]"
  by (simp add: cookie_jar_set_cookie_def create_cookie_def cookie_jar_get_dict_def
        cookie_jar_set_def)

subsection \<open>The steps of preparation\<close>

lemma of_char_toupper:
  assumes "islower c"
  shows "(of_char (toupper c) :: nat) = of_char c - 32"
proof -
  have "(of_char c :: nat) - 32 < 256"
    using assms unfolding islower_def by linarith
  then have "((of_char c :: nat) - 32) mod 256 = of_char c - 32"
    by (rule mod_less)
  with assms show ?thesis
    by (simp add: toupper_def)
qed

lemma toupper_not_lower: "\<not> islower (toupper c)"
proof (cases "islower c")
  case True
  then have "(of_char (toupper c) :: nat) = of_char c - 32"
    by (rule of_char_toupper)
  moreover have "(of_char c :: nat) - 32 < 97"
    using True unfolding islower_def by linarith
  ultimately show ?thesis
    unfolding islower_def by linarith
next
  case False
  then show ?thesis
    by (simp add: toupper_def)
qed

lemma same_letter_toupper: "same_letter c (toupper c)"
proof (cases "islower c")
  case True
  then have "(of_char (toupper c) :: nat) = of_char c - 32"
    by (rule of_char_toupper)
  moreover have "65 \<le> (of_char c :: nat) - 32 \<and> (of_char c :: nat) - 32 \<le> 90
      \<and> (of_char c :: nat) = (of_char c - 32) + 32"
    using True unfolding islower_def by linarith
  ultimately have "isupper (toupper c) \<and> (of_char c :: nat) = of_char (toupper c) + 32"
    unfolding isupper_def by simp
  then show ?thesis
    by (simp add: same_letter_def)
next
  case False
  then show ?thesis
    by (simp add: toupper_def same_letter_def)
qed

lemma append_params_suffix: "\<exists>suffix. append_params first u ps = u @ suffix"
proof (induction ps arbitrary: first u)
  case Nil
  show ?case by simp
next
  case (Cons kv ps)
  obtain k v where kv: "kv = (k, v)"
    by (cases kv)
  obtain suffix where
    "append_params False ((if \<not> first then u @ ''&'' else u) @ (k @ ''='' @ v)) ps =
       ((if \<not> first then u @ ''&'' else u) @ (k @ ''='' @ v)) @ suffix"
    using Cons.IH by blast
  then show ?case
    by (cases first) (simp_all add: kv)
qed

lemma prepare_url_suffix:
  "\<exists>suffix. prepare_url pr url params' = Inr (pr\<lparr>pr_url := url @ suffix\<rparr>)"
proof (cases params')
  case None
  then have "prepare_url pr url params' = Inr (pr\<lparr>pr_url := url @ []\<rparr>)"
    by (simp add: prepare_url_def)
  then show ?thesis ..
next
  case (Some ps)
  show ?thesis
  proof (cases "ps = []")
    case True
    with Some have "prepare_url pr url params' = Inr (pr\<lparr>pr_url := url @ []\<rparr>)"
      by (simp add: prepare_url_def)
    then show ?thesis ..
  next
    case False
    obtain suffix where
      "append_params True (url @ (if find_str url ''?'' = None then ''?'' else ''&'')) ps =
         (url @ (if find_str url ''?'' = None then ''?'' else ''&'')) @ suffix"
      using append_params_suffix by blast
    with Some False have
      "prepare_url pr url params' =
         Inr (pr\<lparr>pr_url := url @ ((if find_str url ''?'' = None then ''?'' else ''&'') @ suffix)\<rparr>)"
      by (simp add: prepare_url_def)
    then show ?thesis ..
  qed
qed

text \<open>The five later steps return, and leave the method and the URL as they are.\<close>

lemma prepare_content_length_keeps:
  "\<exists>pr'. prepare_content_length pr = Inr pr'
     \<and> pr_method pr' = pr_method pr \<and> pr_url pr' = pr_url pr"
  by (simp add: prepare_content_length_def)

lemma prepare_body_keeps:
  "\<exists>pr'. prepare_body pr data' files' json' = Inr pr'
     \<and> pr_method pr' = pr_method pr \<and> pr_url pr' = pr_url pr"
  by (simp add: prepare_body_def prepare_content_length_def
        split: option.splits body_data.splits)

lemma prepare_auth_keeps: "prepare_auth pr a = Inr pr"
  by (cases a) (simp_all add: prepare_auth_def)

lemma prepare_keeps:
  assumes "prepare_method pr method = Inr p1" and "prepare_url p1 url params' = Inr p2"
  shows "\<exists>pr'. prepare pr method url headers' files' data' params' auth' cookies' hooks_cfg' json'
             = Inr pr'
           \<and> pr_method pr' = pr_method p2 \<and> pr_url pr' = pr_url p2"
proof -
  obtain p3 where p3:
    "(case headers' of Some h \<Rightarrow> prepare_headers p2 h | None \<Rightarrow> Inr p2) = Inr p3"
    "pr_method p3 = pr_method p2" "pr_url p3 = pr_url p2"
    by (cases headers') (simp_all add: prepare_headers_def)
  obtain p4 where p4:
    "(case cookies' of Some c \<Rightarrow> prepare_cookies p3 c | None \<Rightarrow> Inr p3) = Inr p4"
    "pr_method p4 = pr_method p3" "pr_url p4 = pr_url p3"
    by (cases cookies') (simp_all add: prepare_cookies_def)
  obtain p5 where p5:
    "prepare_body p4 data' files' json' = Inr p5"
    "pr_method p5 = pr_method p4" "pr_url p5 = pr_url p4"
    using prepare_body_keeps by blast
  have p6: "(case auth' of Some (Some a) \<Rightarrow> prepare_auth p5 a | _ \<Rightarrow> Inr p5) = Inr p5"
    by (simp add: prepare_auth_keeps split: option.splits)
  obtain p7 where p7:
    "(case hooks_cfg' of Some h \<Rightarrow> prepare_hooks p5 h | None \<Rightarrow> Inr p5) = Inr p7"
    "pr_method p7 = pr_method p5" "pr_url p7 = pr_url p5"
    by (cases hooks_cfg') (simp_all add: prepare_hooks_def)
  have "prepare pr method url headers' files' data' params' auth' cookies' hooks_cfg' json' = Inr p7"
    by (simp add: prepare_def and_then_def assms p3(1) p4(1) p5(1) p6 p7(1))
  then show ?thesis
    by (simp add: p3 p4 p5 p7)
qed

subsection \<open>C5: the URL of a request\<close>

text \<open>
  The loop over the parameters appends, for each of them, \<open>&\<close> unless it is the
  first, then the key, \<open>=\<close> and the value.
\<close>

lemma append_params_concat:
  "append_params False u ps = u @ concat (map (\<lambda>(k, v). ''&'' @ k @ ''='' @ v) ps)"
  by (induction ps arbitrary: u) auto

lemma append_params_first:
  "append_params True u ((k, v) # ps) =
     u @ k @ ''='' @ v @ concat (map (\<lambda>(k, v). ''&'' @ k @ ''='' @ v) ps)"
  by (simp add: append_params_concat)

lemma prepare_url_any:
  "\<exists>u. \<forall>q. prepare_url q url params' = Inr (q\<lparr>pr_url := u\<rparr>)"
proof (cases params')
  case None
  then have "\<forall>q. prepare_url q url params' = Inr (q\<lparr>pr_url := url\<rparr>)"
    by (simp add: prepare_url_def)
  then show ?thesis ..
next
  case (Some ps)
  show ?thesis
  proof (cases "ps = []")
    case True
    with Some have "\<forall>q. prepare_url q url params' = Inr (q\<lparr>pr_url := url\<rparr>)"
      by (simp add: prepare_url_def)
    then show ?thesis ..
  next
    case False
    with Some have
      "\<forall>q. prepare_url q url params' =
         Inr (q\<lparr>pr_url :=
           append_params True (url @ (if find_str url ''?'' = None then ''?'' else ''&'')) ps\<rparr>)"
      by (simp add: prepare_url_def)
    then show ?thesis ..
  qed
qed

text \<open>
  C5, as the specification states it, fails on the code. The URL \<open>example.com\<close> has
  no scheme (no \<open>://\<close> occurs in it, and \<open>prepend_scheme_if_needed\<close> puts one in
  front of it), the URL \<open>ftp://example.com\<close> has a scheme no adapter is mounted
  for, and the empty URL is no URL at all: \<open>prepare_url\<close> returns on each of the
  three with the URL as it was given, and so does the whole of \<open>prepare\<close> on the
  first.
\<close>

theorem prepare_url_counterexample:
  "find_str ''example.com'' ''://'' = None
   \<and> prepend_scheme_if_needed ''example.com'' ''https'' = ''https://example.com''
   \<and> prepare_url prepared_request_init ''example.com'' None
       = Inr (prepared_request_init\<lparr>pr_url := ''example.com''\<rparr>)
   \<and> prepare_url prepared_request_init ''ftp://example.com'' None
       = Inr (prepared_request_init\<lparr>pr_url := ''ftp://example.com''\<rparr>)
   \<and> prepare_url prepared_request_init [] None = Inr (prepared_request_init\<lparr>pr_url := []\<rparr>)
   \<and> prepare prepared_request_init ''GET'' ''example.com'' None None None None None None None None
       = Inr (prepared_request_init\<lparr>pr_method := ''GET'', pr_url := ''example.com''\<rparr>)"
  by code_simp

text \<open>
  C5, amended. For every input URL, with or without a scheme, request preparation
  returns and raises nothing. Without parameters, and with an empty map of
  parameters, \<open>prepare_url\<close> stores the URL as it was given. With parameters it
  stores the URL followed by the query string: \<open>?\<close>, or \<open>&\<close> when the URL already
  has a \<open>?\<close>, then \<open>key=value\<close> for each parameter in key order, with \<open>&\<close>
  between two of them. The step changes no other field, and the whole of \<open>prepare\<close>
  returns a request with the URL that \<open>prepare_url\<close> stores.
\<close>

theorem prepare_url_accepts_every_url:
  "prepare_url pr url None = Inr (pr\<lparr>pr_url := url\<rparr>)
   \<and> prepare_url pr url (Some []) = Inr (pr\<lparr>pr_url := url\<rparr>)
   \<and> prepare_url pr url (Some ((k, v) # ps)) =
       Inr (pr\<lparr>pr_url :=
         url @ (if find_str url ''?'' = None then ''?'' else ''&'')
           @ k @ ''='' @ v @ concat (map (\<lambda>(k, v). ''&'' @ k @ ''='' @ v) ps)\<rparr>)
   \<and> (\<exists>pr' p.
         prepare pr method url headers' files' data' params' auth' cookies' hooks_cfg' json'
           = Inr pr'
         \<and> prepare_url pr url params' = Inr p
         \<and> pr_url pr' = pr_url p)"
proof -
  obtain p1 where p1: "prepare_method pr method = Inr p1"
    by (simp add: prepare_method_def)
  obtain u where u: "\<And>q. prepare_url q url params' = Inr (q\<lparr>pr_url := u\<rparr>)"
    using prepare_url_any by blast
  obtain pr' where
    "prepare pr method url headers' files' data' params' auth' cookies' hooks_cfg' json' = Inr pr'"
    "pr_url pr' = pr_url (p1\<lparr>pr_url := u\<rparr>)"
    using prepare_keeps [OF p1 u] by blast
  then have
    "\<exists>pr' p.
       prepare pr method url headers' files' data' params' auth' cookies' hooks_cfg' json' = Inr pr'
       \<and> prepare_url pr url params' = Inr p
       \<and> pr_url pr' = pr_url p"
    using u [of pr] by auto
  moreover have "prepare_url pr url None = Inr (pr\<lparr>pr_url := url\<rparr>)"
    by (simp add: prepare_url_def)
  moreover have "prepare_url pr url (Some []) = Inr (pr\<lparr>pr_url := url\<rparr>)"
    by (simp add: prepare_url_def)
  moreover have "prepare_url pr url (Some ((k, v) # ps)) =
      Inr (pr\<lparr>pr_url :=
        url @ (if find_str url ''?'' = None then ''?'' else ''&'')
          @ k @ ''='' @ v @ concat (map (\<lambda>(k, v). ''&'' @ k @ ''='' @ v) ps)\<rparr>)"
    by (simp add: prepare_url_def append_params_concat)
  ultimately show ?thesis
    by blast
qed

subsection \<open>C6: the method of a request\<close>

text \<open>
  C6, as the specification states it, fails on the code. Preparation of the empty
  method returns, with the empty method, both as the single step and as the whole of
  \<open>prepare\<close>.
\<close>

theorem prepare_method_counterexample:
  "prepare_method prepared_request_init [] = Inr prepared_request_init
   \<and> prepare prepared_request_init [] ''http://example.com/'' None None None None None None None None
       = Inr (prepared_request_init\<lparr>pr_url := ''http://example.com/''\<rparr>)"
  by code_simp

text \<open>
  C6, amended. For every method string, the empty one too, preparation returns and
  raises nothing, and the method of the prepared request is the upper-cased form of
  the input: it has the length of the input, agrees with it character by character
  up to the case of an ASCII letter, and has no lower-case ASCII letter. The step
  changes no other field, and the later steps of \<open>prepare\<close> keep the method.
\<close>

theorem prepare_method_upper_cases:
  "\<exists>pr'. prepare_method pr method = Inr pr'
     \<and> pr'\<lparr>pr_method := pr_method pr\<rparr> = pr
     \<and> length (pr_method pr') = length method
     \<and> case_variant method (pr_method pr')
     \<and> list_all (\<lambda>c. \<not> islower c) (pr_method pr')
     \<and> (\<exists>pr''. prepare pr method url headers' files' data' params' auth' cookies' hooks_cfg' json'
                  = Inr pr''
               \<and> pr_method pr'' = pr_method pr')"
proof -
  let ?p1 = "pr\<lparr>pr_method := map toupper method\<rparr>"
  have p1: "prepare_method pr method = Inr ?p1"
    by (simp add: prepare_method_def)
  obtain suffix where p2: "prepare_url ?p1 url params' = Inr (?p1\<lparr>pr_url := url @ suffix\<rparr>)"
    using prepare_url_suffix by blast
  obtain pr'' where
    "prepare pr method url headers' files' data' params' auth' cookies' hooks_cfg' json' = Inr pr''"
    "pr_method pr'' = pr_method (?p1\<lparr>pr_url := url @ suffix\<rparr>)"
    using prepare_keeps [OF p1 p2] by blast
  then have
    "\<exists>pr''. prepare pr method url headers' files' data' params' auth' cookies' hooks_cfg' json'
              = Inr pr''
            \<and> pr_method pr'' = map toupper method"
    by simp
  moreover have "case_variant method (map toupper method)"
    by (simp add: case_variant_def list_all2_map2 list_all2_same same_letter_toupper)
  moreover have "list_all (\<lambda>c. \<not> islower c) (map toupper method)"
    by (simp add: list_all_iff toupper_not_lower)
  ultimately show ?thesis
    using p1 by simp
qed

subsection \<open>C3: Basic authentication\<close>

text \<open>
  C3 on the code, at the request of the example \<open>example_basic_auth\<close>: preparation
  with the handler \<open>http_basic_auth("user", "passwd")\<close> returns the request that
  preparation without a handler returns, and its headers have no \<open>Authorization\<close>.
\<close>

theorem basic_auth_sets_no_header:
  "prepare prepared_request_init ''GET'' ''https://httpbin.org/basic-auth/user/passwd''
     None None None None (Some (Some (Http_basic_auth ''user'' ''passwd''))) None None None
   = Inr (prepared_request_init\<lparr>pr_method := ''GET'',
            pr_url := ''https://httpbin.org/basic-auth/user/passwd''\<rparr>)
   \<and> prepare prepared_request_init ''GET'' ''https://httpbin.org/basic-auth/user/passwd''
     None None None None None None None None
   = Inr (prepared_request_init\<lparr>pr_method := ''GET'',
            pr_url := ''https://httpbin.org/basic-auth/user/passwd''\<rparr>)
   \<and> ci_get (pr_headers (prepared_request_init\<lparr>pr_method := ''GET'',
            pr_url := ''https://httpbin.org/basic-auth/user/passwd''\<rparr>)) ''Authorization'' = None"
  by code_simp

subsection \<open>C4: the body of a request\<close>

text \<open>
  The two branches \<open>prepare_body\<close> has. With \<open>json\<close>, the body is the JSON text
  and the content type is \<open>application/json\<close>, whatever \<open>data\<close> and \<open>files\<close>
  are; without \<open>json\<close> and with \<open>data\<close>, the body is the data as they are.
\<close>

lemma prepare_body_json:
  "\<exists>pr'. prepare_body pr data' files' (Some s) = Inr pr'
     \<and> pr_body pr' = s
     \<and> ci_get (pr_headers pr') ''Content-Type'' = Some ''application/json''"
proof -
  have neq: "to_lower ''Content-Length'' \<noteq> to_lower ''Content-Type''"
    by code_simp
  show ?thesis
    by (simp add: prepare_body_def prepare_content_length_def ci_get_def ci_set_def
          map_find_assign_same map_find_assign_other neq [symmetric])
qed

lemma prepare_body_data:
  "\<exists>pr'. prepare_body pr (Some (Data_string s)) files' None = Inr pr' \<and> pr_body pr' = s"
  "\<exists>pr'. prepare_body pr (Some (Data_bytes b)) files' None = Inr pr' \<and> pr_body pr' = b"
  by (simp_all add: prepare_body_def prepare_content_length_def)

text \<open>
  C4 on the code, at the file of the example \<open>example_file_upload\<close>, with neither
  \<open>json\<close> nor \<open>data\<close>: the request comes back as it was, with an empty body and
  no \<open>Content-Type\<close>.
\<close>

theorem prepare_body_ignores_files:
  "prepare_body prepared_request_init None
     (Some [\<lparr> field_name = ''document'', filename = ''report.pdf'', file_content = ''%PDF'',
              content_type = Some ''application/pdf'', file_headers = None \<rparr>])
     None
   = Inr prepared_request_init
   \<and> pr_body prepared_request_init = []
   \<and> ci_get (pr_headers prepared_request_init) ''Content-Type'' = None"
  by code_simp

subsection \<open>Awaiting a request\<close>

text \<open>
  Preparation always returns, so the first resume of the frame of
  \<^verbatim>\<open>session::request\<close> ends at its \<^verbatim>\<open>co_await\<close>, and the first resume of the
  frame of the top-level \<^verbatim>\<open>request\<close> does too. A coroutine that awaits either
  therefore reads a promise that holds no exception and the default-constructed
  response.
\<close>

lemma request_prepare_returns: "\<exists>p. request_prepare req = Inr p"
proof -
  obtain p1 where p1: "prepare_method prepared_request_init (req_method req) = Inr p1"
    by (simp add: prepare_method_def)
  obtain u where u:
    "\<And>q. prepare_url q (req_url req)
        (if req_params req = [] then None else Some (req_params req)) = Inr (q\<lparr>pr_url := u\<rparr>)"
    using prepare_url_any by blast
  show ?thesis
    unfolding request_prepare_def using prepare_keeps [OF p1 u] by blast
qed

lemma session_request_awaited:
  "await_resume response_init (await_suspend (session_request s method url opts))
     = Inr response_init"
proof -
  obtain p where
    "prepare_request s
       (request_ctor method url (headers opts) (files opts) (data opts) (params opts)
          (auth opts) (cookies opts) (hooks_cfg opts) (json opts)) = Inr p"
    unfolding prepare_request_def using request_prepare_returns by blast
  then show ?thesis
    by (simp add: session_request_def await_suspend_def await_resume_def)
qed

lemma request_awaited:
  "await_resume response_init (await_suspend (request method url opts)) = Inr response_init"
  by (simp add: request_def await_suspend_def await_resume_def)

subsection \<open>C8: raise_for_status\<close>

text \<open>
  C8, as the specification states it, fails on the code: on a response of status 600,
  which is neither a 4xx nor a 5xx status, \<open>raise_for_status\<close> raises the HTTP error.
\<close>

theorem raise_for_status_counterexample:
  "raise_for_status (set_status_code response_init 600) = Inl (Throw (Http_error ''600 ''))"
  by code_simp

lemma to_string_404: "to_string 404 = ''404''"
  by code_simp

text \<open>
  C8, amended. For every response: on status 200 \<open>raise_for_status\<close> returns (it is
  a \<open>const\<close> function, so the response is unchanged); on status 404 it raises the
  HTTP error with the message \<open>404\<close>, a space and the reason, in which \<open>404\<close>
  occurs at position 0; it raises exactly when the status is 400 or more (the 4xx and
  5xx statuses and every status above them), always the HTTP error with the status,
  a space and the reason as its message, and returns exactly when the status is
  below 400. The HTTP error is never raised automatically: for every session, method,
  URL and options, awaiting a request, of the session or top-level, raises no HTTP
  error.
\<close>

theorem raise_for_status_from_400:
  "(status_code r = 200 \<longrightarrow> raise_for_status r = Inr ())
   \<and> (status_code r = 404 \<longrightarrow>
        raise_for_status r = Inl (Throw (Http_error (''404 '' @ reason r)))
        \<and> find_str (''404 '' @ reason r) ''404'' = Some 0)
   \<and> (raise_for_status r = Inl e \<longleftrightarrow>
        400 \<le> status_code r
        \<and> e = Throw (Http_error (to_string (status_code r) @ '' '' @ reason r)))
   \<and> (raise_for_status r = Inr () \<longleftrightarrow> status_code r < 400)
   \<and> await_resume response_init (await_suspend (session_request s method url opts))
       \<noteq> Inl (Throw (Http_error m))
   \<and> await_resume response_init (await_suspend (request method url opts))
       \<noteq> Inl (Throw (Http_error m))"
proof -
  have "status_code r = 200 \<longrightarrow> raise_for_status r = Inr ()"
    by (simp add: raise_for_status_def)
  moreover have "status_code r = 404 \<longrightarrow>
      raise_for_status r = Inl (Throw (Http_error (''404 '' @ reason r)))"
    by (simp add: raise_for_status_def to_string_404)
  moreover have "find_str (''404 '' @ reason r) ''404'' = Some 0"
    by (simp add: find_str_def)
  moreover have "raise_for_status r = Inl e \<longleftrightarrow>
      400 \<le> status_code r
      \<and> e = Throw (Http_error (to_string (status_code r) @ '' '' @ reason r))"
    by (auto simp: raise_for_status_def)
  moreover have "raise_for_status r = Inr () \<longleftrightarrow> status_code r < 400"
    by (auto simp: raise_for_status_def)
  moreover have
    "await_resume response_init (await_suspend (session_request s method url opts))
       \<noteq> Inl (Throw (Http_error m))"
    by (simp add: session_request_awaited)
  moreover have
    "await_resume response_init (await_suspend (request method url opts))
       \<noteq> Inl (Throw (Http_error m))"
    by (simp add: request_awaited)
  ultimately show ?thesis
    by blast
qed

theorem raise_for_status_from_400_witness:
  "raise_for_status (Response 200 [] [] [] [] ''OK'' [] 0 [] None) = Inr ()
   \<and> raise_for_status (Response 404 [] [] [] [] ''Not Found'' [] 0 [] None)
       = Inl (Throw (Http_error ''404 Not Found''))
   \<and> find_str ''404 Not Found'' ''404'' = Some 0
   \<and> raise_for_status (Response 399 [] [] [] [] [] [] 0 [] None) = Inr ()"
  using
    raise_for_status_from_400 [of "Response 200 [] [] [] [] ''OK'' [] 0 [] None"]
    raise_for_status_from_400 [of "Response 404 [] [] [] [] ''Not Found'' [] 0 [] None"]
    raise_for_status_from_400 [of "Response 399 [] [] [] [] [] [] 0 [] None"]
  by simp

subsection \<open>C1: redirects\<close>

text \<open>
  C1 on the code. The caller mounts, for \<open>http://\<close>, an adapter whose \<open>send\<close>
  hands to \<open>co_return\<close>, on its first resume, a 200 response at
  \<open>http://a/final\<close> and a 302 response with the location \<open>http://a/final\<close>
  everywhere else: a chain of one redirect. A GET of \<open>http://a/start\<close> with the
  default options is prepared as expected. The frame of \<open>session::send\<close> for it,
  resumed to its end, holds the 302 response of the adapter itself, with an empty
  history: the adapter is asked once and the location is not followed. The frame of
  \<open>session::request\<close>, resumed to its end, holds the default-constructed response,
  of status 0 and with an empty history, and this response is also what a coroutine
  that awaits the request reads. The same holds with the limit of redirects set to 1
  instead of the default 30; nothing is raised in either case.
\<close>

theorem session_request_follows_no_redirect:
  "prepare_request
     (mount session_init ''http://''
        (Some (Custom_adapter (\<lambda>pr st t v c p.
           if pr_url pr = ''http://a/final''
           then Final (Inr (Response 200 [] (pr_url pr) [] [] ''OK'' [] 0 [] None))
           else Final (Inr (Response 302 (ci_set [] ''Location'' ''http://a/final'') (pr_url pr)
                  [] [] ''Found'' [] 0 [] None))))))
     (request_ctor ''GET'' ''http://a/start'' None None None None None None None None)
   = Inr (prepared_request_init\<lparr>pr_method := ''GET'', pr_url := ''http://a/start''\<rparr>)
   \<and> task_frame (session_send
     (mount session_init ''http://''
        (Some (Custom_adapter (\<lambda>pr st t v c p.
           if pr_url pr = ''http://a/final''
           then Final (Inr (Response 200 [] (pr_url pr) [] [] ''OK'' [] 0 [] None))
           else Final (Inr (Response 302 (ci_set [] ''Location'' ''http://a/final'') (pr_url pr)
                  [] [] ''Found'' [] 0 [] None))))))
     (prepared_request_init\<lparr>pr_method := ''GET'', pr_url := ''http://a/start''\<rparr>)
     request_options_init)
   = Suspended (Suspended (Final (Inr
       (Response 302 [(''location'', ''Location'', ''http://a/final'')] ''http://a/start''
          [] [] ''Found'' [] 0 [] None))))
   \<and> is_redirect (Response 302 [(''location'', ''Location'', ''http://a/final'')]
         ''http://a/start'' [] [] ''Found'' [] 0 [] None)
   \<and> task_frame (session_request
     (mount session_init ''http://''
        (Some (Custom_adapter (\<lambda>pr st t v c p.
           if pr_url pr = ''http://a/final''
           then Final (Inr (Response 200 [] (pr_url pr) [] [] ''OK'' [] 0 [] None))
           else Final (Inr (Response 302 (ci_set [] ''Location'' ''http://a/final'') (pr_url pr)
                  [] [] ''Found'' [] 0 [] None))))))
     ''GET'' ''http://a/start'' request_options_init)
   = Suspended (Suspended (Final (Inr response_init)))
   \<and> await_resume response_init (await_suspend (session_request
     (mount session_init ''http://''
        (Some (Custom_adapter (\<lambda>pr st t v c p.
           if pr_url pr = ''http://a/final''
           then Final (Inr (Response 200 [] (pr_url pr) [] [] ''OK'' [] 0 [] None))
           else Final (Inr (Response 302 (ci_set [] ''Location'' ''http://a/final'') (pr_url pr)
                  [] [] ''Found'' [] 0 [] None))))))
     ''GET'' ''http://a/start'' request_options_init))
   = Inr response_init
   \<and> task_frame (session_request
     (set_max_redirects
       (mount session_init ''http://''
          (Some (Custom_adapter (\<lambda>pr st t v c p.
             if pr_url pr = ''http://a/final''
             then Final (Inr (Response 200 [] (pr_url pr) [] [] ''OK'' [] 0 [] None))
             else Final (Inr (Response 302 (ci_set [] ''Location'' ''http://a/final'') (pr_url pr)
                    [] [] ''Found'' [] 0 [] None))))))
       1)
     ''GET'' ''http://a/start'' request_options_init)
   = Suspended (Suspended (Final (Inr response_init)))
   \<and> await_resume response_init (await_suspend (session_request
     (set_max_redirects
       (mount session_init ''http://''
          (Some (Custom_adapter (\<lambda>pr st t v c p.
             if pr_url pr = ''http://a/final''
             then Final (Inr (Response 200 [] (pr_url pr) [] [] ''OK'' [] 0 [] None))
             else Final (Inr (Response 302 (ci_set [] ''Location'' ''http://a/final'') (pr_url pr)
                    [] [] ''Found'' [] 0 [] None))))))
       1)
     ''GET'' ''http://a/start'' request_options_init))
   = Inr response_init
   \<and> status_code response_init = 0
   \<and> history response_init = []
   \<and> sess_max_redirects session_init = 30"
  by code_simp

subsection \<open>C10: head\<close>

text \<open>
  C10. For every session, URL and options, the task that \<open>head\<close> returns, as the
  method of a session and as the top-level function, is the task of the request of
  method \<open>HEAD\<close> for that URL, and the options copied into its frame have
  \<open>allow_redirects\<close> false, whatever the caller had put there, and every other
  field as the caller gave it.
\<close>

theorem head_forces_allow_redirects_false:
  "\<exists>opts'. task_args (session_head s url opts) = (''HEAD'', url, opts')
     \<and> task_args (head url opts) = (''HEAD'', url, opts')
     \<and> session_head s url opts = session_request s ''HEAD'' url opts'
     \<and> head url opts = request ''HEAD'' url opts'
     \<and> allow_redirects opts' = Some False
     \<and> params opts' = params opts
     \<and> data opts' = data opts
     \<and> json opts' = json opts
     \<and> headers opts' = headers opts
     \<and> cookies opts' = cookies opts
     \<and> files opts' = files opts
     \<and> auth opts' = auth opts
     \<and> timeout_cfg opts' = timeout_cfg opts
     \<and> proxies opts' = proxies opts
     \<and> hooks_cfg opts' = hooks_cfg opts
     \<and> stream opts' = stream opts
     \<and> verify opts' = verify opts
     \<and> cert opts' = cert opts"
proof -
  let ?o = "opts\<lparr>allow_redirects := Some False\<rparr>"
  have "session_head s url opts = session_request s ''HEAD'' url ?o"
    by (simp add: session_head_def)
  moreover have "head url opts = request ''HEAD'' url ?o"
    by (simp add: head_def)
  moreover have "task_args (session_request s ''HEAD'' url ?o) = (''HEAD'', url, ?o)"
    by (simp add: session_request_def)
  moreover have "task_args (request ''HEAD'' url ?o) = (''HEAD'', url, ?o)"
    by (simp add: request_def)
  ultimately show ?thesis
    by (intro exI [of _ ?o]) simp
qed

end
